theory Spec2Isabelle
  imports Main "HOL-Library.Word" "HOL-Library.Sublist"
begin

unbundle bit_operations_syntax

section \<open>Shared vocabulary: bytes, externally visible events\<close>

text \<open>
  The plugin talks to three foreign libraries (the MoQ transport, FFmpeg, the OBS host).
  Every call into one of them that a property of this development speaks about is
  recorded, in program order, as an \<open>event\<close>; a modelled function returns the list of
  events it performed next to the updated \<open>hang_source\<close>. Answers of the foreign
  libraries (return codes, decoded frames, allocation results) are inputs of the model.
\<close>

type_synonym byte = "8 word"

datatype log_level = LOG_ERROR | LOG_WARNING | LOG_INFO

datatype mutex = decoder_mutex | frame_mutex | audio_mutex

datatype resource = audio_track | video_track | catalog_consumer | broadcast | session | origin

datatype buffer = converted_data | rgba_data nat

datatype event =
    Log log_level
  | Lock mutex
  | Unlock mutex
  | Create resource int
  | Close resource int
  | Frame_close int
  | Send_packet "byte list" "64 word"
  | Audio_decode "byte list" "64 word"
  | Output_video "32 word" "32 word" "64 word"
  | Bfree buffer

section \<open>Bitstream normalizer: \<open>convert_mp4_nal_units_to_annex_b\<close> (nvdec-decoder.c)\<close>

text \<open>
  \<open>uint32_t nal_length = (data[pos] << 24) | (data[pos + 1] << 16) | (data[pos + 2] << 8) | data[pos + 3]\<close>,
  the result taken as a 32-bit unsigned value.
\<close>

definition read_be32 :: "byte \<Rightarrow> byte \<Rightarrow> byte \<Rightarrow> byte \<Rightarrow> 32 word" where
  "read_be32 b0 b1 b2 b3 =
     push_bit 24 (ucast b0) OR push_bit 16 (ucast b1) OR push_bit 8 (ucast b2) OR ucast b3"

definition start_code :: "byte list" where
  "start_code = [0x00, 0x00, 0x00, 0x01]"

datatype convert_error = Alloc_failed | Invalid_nal_length

text \<open>
  The \<open>while (pos + 4 <= size)\<close> loop. \<open>data\<close> is the input of \<open>size = length data\<close> bytes.
  The output buffer is represented by the bytes written so far, so \<open>out_pos\<close> is
  \<open>length buffer\<close> and the four stores \<open>buffer[out_pos++] = ...\<close> followed by
  \<open>memcpy(buffer + out_pos, data + pos, nal_length)\<close> append the start code and the
  \<open>nal_length\<close> bytes at \<open>pos\<close>; \<open>estimated_size\<close> is the capacity of the allocation
  (lemma \<open>convert_loop_capacity\<close> below shows the bytes written always fit it).
  \<open>mem n\<close> tells whether \<open>bzalloc\<close>/\<open>brealloc\<close> of \<open>n\<close> bytes returns a non-NULL pointer.
  \<open>pos\<close>, \<open>out_pos\<close> and the sizes are \<open>size_t\<close>; they are natural numbers here: at every
  test \<open>out_pos = pos \<le> size\<close>, and \<open>nal_length\<close> is below \<open>2^32\<close>, so on the 64-bit targets
  of the plugin no sum in the loop (\<open>pos + 4\<close>, \<open>pos + nal_length\<close>,
  \<open>out_pos + 4 + nal_length + 1024\<close>) reaches \<open>2^64\<close> for an input that fits in memory.
\<close>

function convert_loop ::
  "(nat \<Rightarrow> bool) \<Rightarrow> byte list \<Rightarrow> nat \<Rightarrow> nat \<Rightarrow> byte list \<Rightarrow> convert_error + (nat \<times> byte list)" where
  "convert_loop mem data pos estimated_size buffer =
     (if pos + 4 \<le> length data then
        (let nal_length = unat (read_be32 (data ! pos) (data ! (pos + 1)) (data ! (pos + 2)) (data ! (pos + 3)));
             pos1 = pos + 4
         in if pos1 + nal_length > length data then Inl Invalid_nal_length
            else if length buffer + 4 + nal_length > estimated_size then
              (let estimated_size' = length buffer + 4 + nal_length + 1024
               in if \<not> mem estimated_size' then Inl Alloc_failed
                  else convert_loop mem data (pos1 + nal_length) estimated_size'
                         (buffer @ start_code @ take nal_length (drop pos1 data)))
            else convert_loop mem data (pos1 + nal_length) estimated_size
                   (buffer @ start_code @ take nal_length (drop pos1 data)))
      else Inr (estimated_size, buffer))"
  by pat_completeness auto
termination
  by (relation "measure (\<lambda>(mem, data, pos, estimated_size, buffer). length data - pos)") auto

declare convert_loop.simps [simp del]

text \<open>
  The whole function: allocate \<open>size + 1024\<close> bytes, run the loop from \<open>pos = 0\<close>,
  \<open>out_pos = 0\<close>; \<open>true\<close> with \<open>*out_data\<close>, \<open>*out_size\<close> is \<open>Inr\<close> of the bytes written,
  \<open>false\<close> is \<open>Inl\<close> of the reason.
\<close>

definition convert_mp4_nal_units_to_annex_b ::
  "(nat \<Rightarrow> bool) \<Rightarrow> byte list \<Rightarrow> convert_error + byte list" where
  "convert_mp4_nal_units_to_annex_b mem data =
     (let estimated_size = length data + 1024
      in if \<not> mem estimated_size then Inl Alloc_failed
         else map_sum id snd (convert_loop mem data 0 estimated_size []))"

subsection \<open>The length-prefixed input format\<close>

text \<open>
  A well-formed input, as the properties below describe it: each NAL unit is its length as
  four big-endian bytes followed by its payload.
\<close>

definition be32_bytes :: "32 word \<Rightarrow> byte list" where
  "be32_bytes w = [ucast (drop_bit 24 w), ucast (drop_bit 16 w), ucast (drop_bit 8 w), ucast w]"

definition length_prefixed :: "byte list \<Rightarrow> byte list" where
  "length_prefixed payload = be32_bytes (of_nat (length payload)) @ payload"

definition annex_b :: "byte list \<Rightarrow> byte list" where
  "annex_b payload = start_code @ payload"

section \<open>The component state: \<open>struct hang_source\<close>\<close>

text \<open>
  Modelled from the spec: \<open>hang-source.h\<close>, which declares \<open>struct hang_source\<close>, is not
  among the sources. The fields are those that \<open>hang-source.c\<close> and \<open>nvdec-decoder.c\<close> read
  and write, typed as these files use them and as the data model of the specification
  lists them (resource handles, decoder states, timestamp state
  \<open>{has_first_frame: bool, first_pts_us: u64, first_host_time_ns: u64, last_output_ns: u64}\<close>).
  Handles issued by the transport are \<open>int32_t\<close>; they are only stored and compared with 0,
  so they are integers here. A pointer that is only tested against NULL is an \<open>option\<close>
  (or a flag when the pointee is opaque). The timestamps are \<open>uint64_t\<close> and are 64-bit
  words: their arithmetic wraps. The queues are never filled by these files; only their
  lengths are kept.
\<close>

datatype AVCodecID = AV_CODEC_ID_H264 | AV_CODEC_ID_HEVC | AV_CODEC_ID_AV1

record AVCodecContext =
  codec_id :: AVCodecID
  extradata :: "byte list option"

record nvdec_decoder =
  codec_ctx :: "AVCodecContext option"
  sws_ctx :: bool

type_synonym obs_source = nat

record hang_source =
  source :: "obs_source option"
  frame_queue_len :: nat
  audio_queue_len :: nat
  has_first_frame :: bool
  first_frame_pts_us :: "64 word"
  first_frame_obs_time_ns :: "64 word"
  last_output_timestamp_ns :: "64 word"
  url :: "string option"
  broadcast_path :: "string option"
  active :: bool
  origin_id :: int
  session_id :: int
  broadcast_id :: int
  catalog_consumer_id :: int
  video_track_id :: int
  audio_track_id :: int
  nvdec_context :: "nvdec_decoder option"
  audio_decoder_context :: bool

section \<open>Codec selection: \<open>parse_codec_id\<close> (nvdec-decoder.c)\<close>

text \<open>
  \<open>tolower\<close> of the C locale, which \<open>strncasecmp\<close> applies to both sides.
\<close>

definition tolower :: "char \<Rightarrow> char" where
  "tolower c = (let n = (of_char c :: nat) in if 65 \<le> n \<and> n \<le> 90 then char_of (n + 32) else c)"

text \<open>
  \<open>codec\<close> is \<open>None\<close> for a NULL pointer, otherwise the \<open>codec_len\<close> characters the
  pointer addresses. Each comparison is guarded by \<open>codec_len >= 4\<close> (or 3) and looks at
  that many leading characters: \<open>strncmp(codec, "avc1", 4) == 0\<close> is
  \<open>take 4 codec = ''avc1''\<close>; \<open>strncasecmp\<close> compares after \<open>tolower\<close>.
  The result comes with what was logged.
\<close>

definition parse_codec_id :: "string option \<Rightarrow> AVCodecID \<times> event list" where
  "parse_codec_id codec_ptr =
     (case codec_ptr of
        None \<Rightarrow> (AV_CODEC_ID_H264, [])
      | Some codec \<Rightarrow>
          (let codec_len = length codec in
           if codec_len = 0 then (AV_CODEC_ID_H264, [])
           else if (codec_len \<ge> 4 \<and> take 4 codec = ''avc1'') \<or>
                   (codec_len \<ge> 4 \<and> map tolower (take 4 codec) = ''h264'')
             then (AV_CODEC_ID_H264, [])
           else if (codec_len \<ge> 4 \<and> take 4 codec = ''hev1'') \<or>
                   (codec_len \<ge> 4 \<and> take 4 codec = ''hvc1'') \<or>
                   (codec_len \<ge> 4 \<and> map tolower (take 4 codec) = ''hevc'') \<or>
                   (codec_len \<ge> 4 \<and> map tolower (take 4 codec) = ''h265'')
             then (AV_CODEC_ID_HEVC, [])
           else if (codec_len \<ge> 4 \<and> take 4 codec = ''av01'') \<or>
                   (codec_len \<ge> 3 \<and> map tolower (take 3 codec) = ''av1'')
             then (AV_CODEC_ID_AV1, [])
           else (AV_CODEC_ID_H264, [Log LOG_WARNING])))"

section \<open>Emission and the timestamp mapper: \<open>output_decoded_frame\<close> (nvdec-decoder.c)\<close>

text \<open>
  \<open>now\<close> is what \<open>os_gettime_ns()\<close> answers if it is asked. \<open>context\<close> and \<open>data\<close> are
  pointers that the function tests against NULL. The function returns nothing; its
  effects are the updated context and the events, among them the unlock of
  \<open>decoder_mutex\<close> and, when the frame reaches the host,
  \<open>Output_video width height timestamp\<close>.
\<close>

definition output_decoded_frame ::
  "64 word \<Rightarrow> hang_source option \<Rightarrow> buffer option \<Rightarrow> 32 word \<Rightarrow> 32 word \<Rightarrow> 64 word
     \<Rightarrow> hang_source option \<times> event list" where
  "output_decoded_frame now context data width height pts_us =
     (case context of
        None \<Rightarrow> (None, (case data of Some d \<Rightarrow> [Bfree d] | None \<Rightarrow> []))
      | Some c \<Rightarrow>
         (case data of
            None \<Rightarrow> (Some c, [Unlock decoder_mutex])
          | Some d \<Rightarrow>
              if width = 0 \<or> height = 0 \<or> width > 7680 \<or> height > 4320
              then (Some c, [Log LOG_ERROR, Bfree d, Unlock decoder_mutex])
              else
                (let is_active = active c;
                     src = source c;
                     obs_timestamp_ns = pts_us * 1000;
                     (c', obs_timestamp_ns') =
                        (if \<not> has_first_frame c
                         then (c\<lparr>has_first_frame := True,
                                 first_frame_pts_us := pts_us,
                                 first_frame_obs_time_ns := now,
                                 last_output_timestamp_ns := obs_timestamp_ns\<rparr>, obs_timestamp_ns)
                         else
                           (let t = (if obs_timestamp_ns \<le> last_output_timestamp_ns c
                                     then last_output_timestamp_ns c + 1 else obs_timestamp_ns)
                            in (c\<lparr>last_output_timestamp_ns := t\<rparr>, t)));
                     locked = [Lock frame_mutex, Unlock frame_mutex, Unlock decoder_mutex]
                 in if \<not> is_active \<or> src = None then (Some c', locked @ [Bfree d])
                    else (Some c', locked @ [Output_video width height obs_timestamp_ns', Bfree d]))))"

section \<open>Decoding one packet: \<open>decode_frame\<close>, \<open>nvdec_decoder_decode\<close> (nvdec-decoder.c)\<close>

text \<open>
  What FFmpeg and the allocator answer while one packet is decoded. Each element of
  \<open>receive_answers\<close> is one turn of the drain loop: \<open>av_frame_alloc\<close> returned NULL, or
  \<open>avcodec_receive_frame\<close> returned a code together with, for a code that is not
  negative, the frame and the answers of the calls made for that frame. The decoder
  buffers finitely many frames: when the answers are used up, \<open>avcodec_receive_frame\<close>
  reports \<open>AVERROR(EAGAIN)\<close>. \<open>frame_width\<close> and \<open>frame_height\<close> are C \<open>int\<close>s;
  \<open>frame_pts\<close> is the 64 bits of \<open>frame->pts\<close>. Whether \<open>bzalloc(rgba_size)\<close> returns a
  buffer is answered per frame (\<open>rgba_alloc_ok\<close>), the size being a product of \<open>int\<close>s.
\<close>

record frame_answers =
  frame_width :: int
  frame_height :: int
  frame_pts :: "64 word"
  sws_getContext_ok :: bool
  rgba_alloc_ok :: bool
  sws_scale_ret :: int
  os_gettime_ns :: "64 word"

datatype drain_answer = Av_frame_alloc_null | Receive int frame_answers

record decode_env =
  bzalloc_ok :: "nat \<Rightarrow> bool"
  av_packet_alloc_ok :: bool
  avcodec_send_packet_ret :: int
  receive_answers :: "drain_answer list"

definition AVERROR_EAGAIN :: int where "AVERROR_EAGAIN = - 11"
definition AVERROR_EOF :: int where "AVERROR_EOF = - 541478725"
definition AV_NOPTS_VALUE :: "64 word" where "AV_NOPTS_VALUE = 0x8000000000000000"

text \<open>
  The \<open>while (true)\<close> drain loop. \<open>decoder\<close> is the object \<open>context->nvdec_context\<close> points
  to; it is threaded beside the context and stored back by \<open>decode_frame\<close>.
  \<open>n\<close> is \<open>frames_decoded_this_packet\<close>; the RGBA buffer allocated for the \<open>n\<close>-th frame of
  the packet is \<open>rgba_data n\<close>. Every \<open>break\<close> returns the current \<open>success\<close>.
\<close>

fun drain_loop ::
  "drain_answer list \<Rightarrow> 64 word \<Rightarrow> nvdec_decoder \<Rightarrow> hang_source \<Rightarrow> nat \<Rightarrow> bool
     \<Rightarrow> nvdec_decoder \<times> hang_source \<times> bool \<times> event list" where
  "drain_loop [] pts decoder context n success = (decoder, context, success, [])"
| "drain_loop (Av_frame_alloc_null # rest) pts decoder context n success =
     (decoder, context, success, [Log LOG_ERROR])"
| "drain_loop (Receive ret frame # rest) pts decoder context n success =
     (if ret < 0 then
        (decoder, context, success,
         if ret = AVERROR_EAGAIN then [] else if ret = AVERROR_EOF then [] else [Log LOG_ERROR])
      else if \<not> sws_ctx decoder \<and> \<not> sws_getContext_ok frame then
        (decoder, context, True, [Log LOG_ERROR])
      else
        (let decoder' = decoder\<lparr>sws_ctx := True\<rparr>;
             n' = n + 1
         in if \<not> rgba_alloc_ok frame then (decoder', context, True, [Log LOG_ERROR])
            else if sws_scale_ret frame < 0 then
              (decoder', context, True, [Log LOG_ERROR, Bfree (rgba_data n')])
            else
              (let frame_pts' = (if frame_pts frame \<noteq> AV_NOPTS_VALUE then frame_pts frame else pts)
               in if frame_width frame = 0 \<or> frame_height frame = 0 then
                    (decoder', context, True, [Log LOG_ERROR, Bfree (rgba_data n')])
                  else
                    (let (context_opt, evs) =
                           output_decoded_frame (os_gettime_ns frame) (Some context) (Some (rgba_data n'))
                             (word_of_int (frame_width frame)) (word_of_int (frame_height frame)) frame_pts';
                         context' = (case context_opt of Some c \<Rightarrow> c | None \<Rightarrow> context);
                         (decoder'', context'', success'', evs') =
                           drain_loop rest pts decoder' context' n' True
                     in (decoder'', context'', success'', evs @ evs')))))"

text \<open>
  \<open>decode_frame\<close>. The \<open>CLOG_ERROR\<close> that the normalizer prints for an overrunning length is
  logged here, before the caller's own \<open>CLOG_ERROR\<close>. \<open>Send_packet\<close> records the call of
  \<open>avcodec_send_packet\<close> with the packet's bytes and \<open>pts\<close>.
\<close>

definition decode_frame ::
  "decode_env \<Rightarrow> nvdec_decoder \<Rightarrow> byte list \<Rightarrow> 64 word \<Rightarrow> hang_source
     \<Rightarrow> hang_source \<times> bool \<times> event list" where
  "decode_frame env decoder data pts context =
     (case convert_mp4_nal_units_to_annex_b (bzalloc_ok env) data of
        Inl err \<Rightarrow>
          (context, False,
           (case err of Invalid_nal_length \<Rightarrow> [Log LOG_ERROR] | Alloc_failed \<Rightarrow> []) @ [Log LOG_ERROR])
      | Inr converted \<Rightarrow>
          if \<not> av_packet_alloc_ok env then (context, False, [Log LOG_ERROR, Bfree converted_data])
          else if avcodec_send_packet_ret env < 0 then
            (context, False, [Send_packet converted pts, Log LOG_ERROR, Bfree converted_data])
          else
            (let (decoder', context', success, evs) =
                   drain_loop (receive_answers env) pts decoder context 0 False
             in (context'\<lparr>nvdec_context := Some decoder'\<rparr>, success,
                 Send_packet converted pts # evs @ [Bfree converted_data])))"

definition nvdec_decoder_decode ::
  "decode_env \<Rightarrow> hang_source \<Rightarrow> byte list \<Rightarrow> 64 word \<Rightarrow> bool \<Rightarrow> hang_source \<times> bool \<times> event list" where
  "nvdec_decoder_decode env context data pts keyframe =
     (case nvdec_context context of
        None \<Rightarrow> (context, False, [])
      | Some decoder \<Rightarrow> decode_frame env decoder data pts context)"

definition nvdec_decoder_destroy :: "hang_source \<Rightarrow> hang_source" where
  "nvdec_decoder_destroy context = context\<lparr>nvdec_context := None\<rparr>"

section \<open>Frame callbacks: \<open>on_video_frame\<close>, \<open>on_audio_frame\<close> (hang-source.c)\<close>

text \<open>
  What the callback meets: the answer of \<open>moq_consume_frame_chunk\<close> (return code and
  frame), the answers met while decoding, and \<open>concurrent_writes\<close>, the effect the other
  threads had on the context between the unlocked test of \<open>active\<close> and the moment the
  callback holds \<open>decoder_mutex\<close> (for instance a \<open>hang_source_deactivate\<close> that cleared
  \<open>active\<close> and destroyed the decoders).
\<close>

record moq_frame =
  payload :: "byte list"
  timestamp_us :: "64 word"
  keyframe :: bool

text \<open>
  Modelled from the spec: \<open>audio-decoder.c\<close> (\<open>audio_decoder_init\<close>,
  \<open>audio_decoder_decode\<close>, \<open>audio_decoder_destroy\<close>) is not among the sources. The audio
  facade is "analogous to the video facade": \<open>decode(payload, size, pts_us)\<close> gets the
  context, the payload and the timestamp and answers a flag; it is a parameter of the
  model (\<open>audio_decoder_decode\<close> below), its call is the event \<open>Audio_decode\<close>.
  \<open>destroy()\<close> releases the decoder: the context's pointer to it becomes NULL.
\<close>

definition audio_decoder_destroy :: "hang_source \<Rightarrow> hang_source" where
  "audio_decoder_destroy context = context\<lparr>audio_decoder_context := False\<rparr>"

record frame_env =
  moq_consume_frame_chunk_ret :: int
  moq_consume_frame_chunk_frame :: moq_frame
  concurrent_writes :: "hang_source \<Rightarrow> hang_source"
  decoding :: decode_env
  audio_decoder_decode :: "hang_source \<Rightarrow> byte list \<Rightarrow> 64 word \<Rightarrow> hang_source \<times> bool"

definition on_video_frame :: "frame_env \<Rightarrow> hang_source option \<Rightarrow> int \<Rightarrow> hang_source option \<times> event list" where
  "on_video_frame env user_data frame_id =
     (case user_data of
        None \<Rightarrow> (None, if frame_id > 0 then [Frame_close frame_id] else [])
      | Some context \<Rightarrow>
          if \<not> active context then (Some context, if frame_id > 0 then [Frame_close frame_id] else [])
          else if frame_id \<le> 0 then (Some context, [])
          else if moq_consume_frame_chunk_ret env < 0 then (Some context, [Frame_close frame_id])
          else
            (let frame = moq_consume_frame_chunk_frame env;
                 context1 = concurrent_writes env context
             in if \<not> active context1 \<or> nvdec_context context1 = None
                then (Some context1, [Lock decoder_mutex, Unlock decoder_mutex, Frame_close frame_id])
                else
                  (let (context2, decoded, evs) =
                         nvdec_decoder_decode (decoding env) context1 (payload frame) (timestamp_us frame)
                           (keyframe frame)
                   in (Some context2,
                       [Lock decoder_mutex] @ evs @
                       (if \<not> decoded then [Unlock decoder_mutex] else []) @
                       [Frame_close frame_id]))))"

definition on_audio_frame :: "frame_env \<Rightarrow> hang_source option \<Rightarrow> int \<Rightarrow> hang_source option \<times> event list" where
  "on_audio_frame env user_data frame_id =
     (case user_data of
        None \<Rightarrow> (None, if frame_id > 0 then [Frame_close frame_id] else [])
      | Some context \<Rightarrow>
          if \<not> active context then (Some context, if frame_id > 0 then [Frame_close frame_id] else [])
          else if frame_id \<le> 0 then (Some context, [Log LOG_ERROR])
          else if moq_consume_frame_chunk_ret env < 0 then (Some context, [Log LOG_ERROR, Frame_close frame_id])
          else
            (let frame = moq_consume_frame_chunk_frame env;
                 context1 = concurrent_writes env context
             in if \<not> active context1 \<or> \<not> audio_decoder_context context1
                then (Some context1, [Lock decoder_mutex, Unlock decoder_mutex, Frame_close frame_id])
                else
                  (let (context2, decoded) =
                         audio_decoder_decode env context1 (payload frame) (timestamp_us frame)
                   in (Some context2,
                       [Lock decoder_mutex, Audio_decode (payload frame) (timestamp_us frame),
                        Unlock decoder_mutex, Frame_close frame_id]))))"

section \<open>Bringup and teardown: the session orchestrator (hang-source.c)\<close>

text \<open>
  The handle field that belongs to a resource, and the statement
  \<open>if (context->x_id > 0) { close_x(context->x_id); context->x_id = 0; }\<close>
  that the source repeats for each of them.
\<close>

fun handle :: "resource \<Rightarrow> hang_source \<Rightarrow> int" where
  "handle audio_track c = audio_track_id c"
| "handle video_track c = video_track_id c"
| "handle catalog_consumer c = catalog_consumer_id c"
| "handle broadcast c = broadcast_id c"
| "handle session c = session_id c"
| "handle origin c = origin_id c"

fun set_handle :: "resource \<Rightarrow> int \<Rightarrow> hang_source \<Rightarrow> hang_source" where
  "set_handle audio_track v c = c\<lparr>audio_track_id := v\<rparr>"
| "set_handle video_track v c = c\<lparr>video_track_id := v\<rparr>"
| "set_handle catalog_consumer v c = c\<lparr>catalog_consumer_id := v\<rparr>"
| "set_handle broadcast v c = c\<lparr>broadcast_id := v\<rparr>"
| "set_handle session v c = c\<lparr>session_id := v\<rparr>"
| "set_handle origin v c = c\<lparr>origin_id := v\<rparr>"

definition close_if_live :: "resource \<Rightarrow> hang_source \<times> event list \<Rightarrow> hang_source \<times> event list" where
  "close_if_live r = (\<lambda>(c, evs).
     if handle r c > 0 then (set_handle r 0 c, evs @ [Close r (handle r c)]) else (c, evs))"

text \<open>\<open>strstr(haystack, needle)\<close>: the suffix at the first occurrence, \<open>None\<close> for NULL.\<close>

fun strstr :: "string \<Rightarrow> string \<Rightarrow> string option" where
  "strstr [] needle = (if needle = [] then Some [] else None)"
| "strstr (c # cs) needle = (if prefix needle (c # cs) then Some (c # cs) else strstr cs needle)"

record activate_env =
  moq_origin_create_ret :: int
  moq_session_connect_ret :: int

text \<open>The code after the label \<open>cleanup:\<close> of \<open>hang_source_activate\<close>.\<close>

definition activate_cleanup :: "hang_source \<times> event list \<Rightarrow> hang_source \<times> event list" where
  "activate_cleanup s = (let s1 = close_if_live session s in close_if_live origin s1)"

definition hang_source_activate :: "activate_env \<Rightarrow> hang_source \<Rightarrow> hang_source \<times> event list" where
  "hang_source_activate env context =
     (case (url context, broadcast_path context) of
        (Some u, Some b) \<Rightarrow>
          if active context \<or> length u = 0 \<or> length b = 0 then (context, [])
          else
            (case strstr u ''://'' of
               None \<Rightarrow> (context, [Log LOG_ERROR])
             | Some host_start \<Rightarrow>
                 if length (drop 3 host_start) = 0 then (context, [Log LOG_ERROR])
                 else
                   (let c1 = context\<lparr>origin_id := moq_origin_create_ret env\<rparr>;
                        evs1 = [Log LOG_INFO, Create origin (origin_id c1)]
                    in if origin_id c1 \<le> 0 then activate_cleanup (c1, evs1 @ [Log LOG_ERROR])
                       else
                         (let c2 = c1\<lparr>session_id := moq_session_connect_ret env\<rparr>;
                              evs2 = evs1 @ [Create session (session_id c2)]
                          in if session_id c2 \<le> 0 then activate_cleanup (c2, evs2 @ [Log LOG_ERROR])
                             else (c2\<lparr>active := True\<rparr>, evs2 @ [Log LOG_INFO]))))
      | _ \<Rightarrow> (context, []))"

definition hang_source_deactivate :: "hang_source \<Rightarrow> hang_source \<times> event list" where
  "hang_source_deactivate context =
     (if \<not> active context then (context, [])
      else
        (let s0 = (context\<lparr>active := False\<rparr>, [Log LOG_INFO]);
             s1 = close_if_live audio_track s0;
             s2 = close_if_live video_track s1;
             s3 = close_if_live catalog_consumer s2;
             s4 = close_if_live broadcast s3;
             s5 = close_if_live session s4;
             (c1, evs1) = close_if_live origin s5;
             c2 = c1\<lparr>frame_queue_len := 0, audio_queue_len := 0\<rparr>;
             c3 = audio_decoder_destroy (nvdec_decoder_destroy c2);
             c4 = c3\<lparr>has_first_frame := False, first_frame_pts_us := 0,
                     first_frame_obs_time_ns := 0, last_output_timestamp_ns := 0\<rparr>
         in (c4, evs1 @ [Lock frame_mutex, Unlock frame_mutex, Lock audio_mutex, Unlock audio_mutex,
                         Lock decoder_mutex, Unlock decoder_mutex, Log LOG_INFO])))"

text \<open>
  \<open>hang_source_destroy\<close> up to the release of the context itself: the deactivation, the
  second round of closes, the decoders and the queues.
\<close>

definition hang_source_destroy :: "hang_source \<Rightarrow> hang_source \<times> event list" where
  "hang_source_destroy context =
     (let s0 = hang_source_deactivate context;
          s1 = close_if_live audio_track s0;
          s2 = close_if_live video_track s1;
          s3 = close_if_live catalog_consumer s2;
          s4 = close_if_live broadcast s3;
          s5 = close_if_live session s4;
          (c1, evs1) = close_if_live origin s5;
          c2 = audio_decoder_destroy (nvdec_decoder_destroy c1);
          c3 = c2\<lparr>frame_queue_len := 0, audio_queue_len := 0\<rparr>
      in (c3, evs1 @ [Lock decoder_mutex, Unlock decoder_mutex, Lock frame_mutex, Unlock frame_mutex,
                      Lock audio_mutex, Unlock audio_mutex]))"

record status_env =
  moq_origin_consume_ret :: int
  moq_consume_catalog_ret :: int

definition on_session_status :: "status_env \<Rightarrow> hang_source option \<Rightarrow> int \<Rightarrow> hang_source option \<times> event list" where
  "on_session_status env user_data code =
     (case user_data of
        None \<Rightarrow> (None, [])
      | Some context \<Rightarrow>
          if code = 0 then
            (let c1 = context\<lparr>broadcast_id := moq_origin_consume_ret env\<rparr>;
                 evs1 = [Log LOG_INFO, Create broadcast (broadcast_id c1)]
             in if broadcast_id c1 \<le> 0 then (Some (c1\<lparr>active := False\<rparr>), evs1 @ [Log LOG_ERROR])
                else
                  (let c2 = c1\<lparr>catalog_consumer_id := moq_consume_catalog_ret env\<rparr>;
                       evs2 = evs1 @ [Log LOG_INFO, Create catalog_consumer (catalog_consumer_id c2)]
                   in if catalog_consumer_id c2 \<le> 0 then
                        (Some (c2\<lparr>broadcast_id := 0, active := False\<rparr>),
                         evs2 @ [Log LOG_ERROR, Close broadcast (broadcast_id c2)])
                      else (Some c2, evs2 @ [Log LOG_INFO])))
          else if code < 0 then (Some (context\<lparr>active := False\<rparr>), [Log LOG_ERROR])
          else (Some context, []))"

subsection \<open>Catalog updates: \<open>nvdec_decoder_init\<close> (nvdec-decoder.c), \<open>on_catalog\<close> (hang-source.c)\<close>

record catalog_env =
  moq_consume_video_config_ret :: int
  video_config_codec :: "string option"
  video_config_description :: "byte list option"
  video_config_has_dimensions :: bool
  avcodec_find_decoder_ok :: bool
  avcodec_alloc_context3_ok :: bool
  av_mallocz_ok :: bool
  avcodec_open2_ret :: int
  audio_decoder_init_ok :: bool
  moq_consume_video_track_ret :: int
  moq_consume_audio_track_ret :: int

definition nvdec_decoder_init ::
  "catalog_env \<Rightarrow> hang_source \<Rightarrow> string option \<Rightarrow> byte list option \<Rightarrow> hang_source \<times> bool \<times> event list" where
  "nvdec_decoder_init env context codec_str description =
     (let (cid, evs0) = parse_codec_id codec_str;
          evs1 = evs0 @ [Log LOG_INFO]
      in if \<not> avcodec_find_decoder_ok env then (context\<lparr>nvdec_context := None\<rparr>, False, evs1 @ [Log LOG_ERROR])
         else if \<not> avcodec_alloc_context3_ok env then
           (context\<lparr>nvdec_context := None\<rparr>, False, evs1 @ [Log LOG_ERROR])
         else
           (let (ed, evs2) =
                  (case description of
                     None \<Rightarrow> (None, evs1)
                   | Some bytes \<Rightarrow>
                       if length bytes > 0 \<and> av_mallocz_ok env then (Some bytes, evs1 @ [Log LOG_INFO])
                       else (None, evs1))
            in if avcodec_open2_ret env < 0 then
                 (context\<lparr>nvdec_context := None\<rparr>, False, evs2 @ [Log LOG_ERROR])
               else
                 (context\<lparr>nvdec_context :=
                     Some \<lparr>codec_ctx = Some \<lparr>codec_id = cid, extradata = ed\<rparr>, sws_ctx = False\<rparr>\<rparr>,
                  True, evs2 @ [Log LOG_INFO])))"

text \<open>
  Modelled from the spec: \<open>audio_decoder_init\<close> (in the absent \<open>audio-decoder.c\<close>) creates
  the audio decoder state on success and leaves none behind on failure; whether it
  succeeds is the input \<open>audio_decoder_init_ok\<close>.
\<close>

definition audio_decoder_init :: "catalog_env \<Rightarrow> hang_source \<Rightarrow> hang_source \<times> bool" where
  "audio_decoder_init env context =
     (context\<lparr>audio_decoder_context := audio_decoder_init_ok env\<rparr>, audio_decoder_init_ok env)"

definition on_catalog :: "catalog_env \<Rightarrow> hang_source option \<Rightarrow> int \<Rightarrow> hang_source option \<times> event list" where
  "on_catalog env user_data catalog_id =
     (case user_data of
        None \<Rightarrow> (None, [])
      | Some context \<Rightarrow>
          if \<not> active context then (Some context, [])
          else if catalog_id \<le> 0 then (Some context, [Log LOG_ERROR])
          else
            (let s1 = close_if_live video_track (context, [Log LOG_INFO]);
                 (c1, evs1) = close_if_live audio_track s1;
                 c2 = audio_decoder_destroy (nvdec_decoder_destroy c1);
                 evs2 = evs1 @ [Lock decoder_mutex, Unlock decoder_mutex];
                 (codec, description, evs3) =
                    (if moq_consume_video_config_ret env < 0 then (Some ''h264'', None, evs2 @ [Log LOG_WARNING])
                     else (video_config_codec env, video_config_description env,
                           evs2 @ [Log LOG_INFO] @ (if video_config_has_dimensions env then [Log LOG_INFO] else [])));
                 (c3, video_ok, evs_init) = nvdec_decoder_init env c2 codec description;
                 evs4 = evs3 @ evs_init
             in if \<not> video_ok then (Some (c3\<lparr>active := False\<rparr>), evs4 @ [Log LOG_ERROR])
                else
                  (let (c4, audio_ok) = audio_decoder_init env c3
                   in if \<not> audio_ok then
                        (Some ((nvdec_decoder_destroy c4)\<lparr>active := False\<rparr>), evs4 @ [Log LOG_ERROR])
                      else
                        (let c5 = c4\<lparr>video_track_id := moq_consume_video_track_ret env\<rparr>;
                             evs5 = evs4 @ [Create video_track (video_track_id c5),
                                            Log (if video_track_id c5 \<le> 0 then LOG_WARNING else LOG_INFO)];
                             c6 = c5\<lparr>audio_track_id := moq_consume_audio_track_ret env\<rparr>;
                             evs6 = evs5 @ [Create audio_track (audio_track_id c6),
                                            Log (if audio_track_id c6 \<le> 0 then LOG_WARNING else LOG_INFO)]
                         in (Some c6, evs6)))))"

section \<open>Reading traces\<close>

text \<open>The handles closed by a trace, the timestamps it hands to the host, its frame releases.\<close>

fun closed_resources :: "event list \<Rightarrow> resource list" where
  "closed_resources [] = []"
| "closed_resources (Close r i # evs) = r # closed_resources evs"
| "closed_resources (_ # evs) = closed_resources evs"

fun video_timestamps :: "event list \<Rightarrow> 64 word list" where
  "video_timestamps [] = []"
| "video_timestamps (Output_video w h t # evs) = t # video_timestamps evs"
| "video_timestamps (_ # evs) = video_timestamps evs"

fun frame_closes :: "event list \<Rightarrow> int list" where
  "frame_closes [] = []"
| "frame_closes (Frame_close i # evs) = i # frame_closes evs"
| "frame_closes (_ # evs) = frame_closes evs"

fun sent_packets :: "event list \<Rightarrow> byte list list" where
  "sent_packets [] = []"
| "sent_packets (Send_packet bs pts # evs) = bs # sent_packets evs"
| "sent_packets (_ # evs) = sent_packets evs"

text \<open>The order in which \<open>hang_source_deactivate\<close> visits the handles.\<close>

definition teardown_order :: "resource list" where
  "teardown_order = [audio_track, video_track, catalog_consumer, broadcast, session, origin]"

section \<open>The timestamp mapper as the specification words it\<close>





text \<open>
  The events a decode of one packet can produce after the packet was sent: logging,
  locking, buffer releases and emissions.
\<close>

fun decoder_event :: "event \<Rightarrow> bool" where
  "decoder_event (Log l) = True"
| "decoder_event (Lock m) = True"
| "decoder_event (Unlock m) = True"
| "decoder_event (Bfree b) = True"
| "decoder_event (Output_video w h t) = True"
| "decoder_event _ = False"

section \<open>Example inputs\<close>

text \<open>
  A context in the Streaming state with every handle live, a decoded 640x480 frame for
  which every call succeeds, and decoder answers with working allocation.
\<close>

definition streaming_context :: hang_source where
  "streaming_context =
     \<lparr>source = Some 1, frame_queue_len = 0, audio_queue_len = 0, has_first_frame = False,
      first_frame_pts_us = 0, first_frame_obs_time_ns = 0, last_output_timestamp_ns = 0,
      url = Some ''https://example:443'', broadcast_path = Some ''demo'', active = True,
      origin_id = 1, session_id = 2, broadcast_id = 3, catalog_consumer_id = 4,
      video_track_id = 5, audio_track_id = 6,
      nvdec_context = Some \<lparr>codec_ctx = Some \<lparr>codec_id = AV_CODEC_ID_H264, extradata = None\<rparr>, sws_ctx = False\<rparr>,
      audio_decoder_context = True\<rparr>"

definition decoded_frame :: "64 word \<Rightarrow> frame_answers" where
  "decoded_frame p =
     \<lparr>frame_width = 640, frame_height = 480, frame_pts = p, sws_getContext_ok = True,
      rgba_alloc_ok = True, sws_scale_ret = 480, os_gettime_ns = 5000\<rparr>"

definition decoding_env :: "drain_answer list \<Rightarrow> decode_env" where
  "decoding_env answers =
     \<lparr>bzalloc_ok = (\<lambda>n. True), av_packet_alloc_ok = True, avcodec_send_packet_ret = 0,
      receive_answers = answers\<rparr>"

definition callback_env :: "byte list \<Rightarrow> drain_answer list \<Rightarrow> frame_env" where
  "callback_env bytes answers =
     \<lparr>moq_consume_frame_chunk_ret = 0,
      moq_consume_frame_chunk_frame = \<lparr>payload = bytes, timestamp_us = 1000000, keyframe = True\<rparr>,
      concurrent_writes = (\<lambda>c. c),
      decoding = decoding_env answers,
      audio_decoder_decode = (\<lambda>c bytes pts. (c, True))\<rparr>"


text \<open>
  Answers for a catalog update that succeeds at every step, a context before any
  activation, and the context that \<open>hang_source_activate\<close> leaves when the origin and
  the session were created with the handles 1 and 2.
\<close>

definition catalog_answers :: "string \<Rightarrow> catalog_env" where
  "catalog_answers codec =
     \<lparr>moq_consume_video_config_ret = 0, video_config_codec = Some codec,
      video_config_description = None, video_config_has_dimensions = False,
      avcodec_find_decoder_ok = True, avcodec_alloc_context3_ok = True, av_mallocz_ok = True,
      avcodec_open2_ret = 0, audio_decoder_init_ok = True,
      moq_consume_video_track_ret = 7, moq_consume_audio_track_ret = 8\<rparr>"

definition idle_context :: hang_source where
  "idle_context =
     \<lparr>source = Some 1, frame_queue_len = 0, audio_queue_len = 0, has_first_frame = False,
      first_frame_pts_us = 0, first_frame_obs_time_ns = 0, last_output_timestamp_ns = 0,
      url = Some ''https://example:443'', broadcast_path = Some ''demo'', active = False,
      origin_id = 0, session_id = 0, broadcast_id = 0, catalog_consumer_id = 0,
      video_track_id = 0, audio_track_id = 0, nvdec_context = None, audio_decoder_context = False\<rparr>"

definition connecting_context :: hang_source where
  "connecting_context = idle_context\<lparr>origin_id := 1, session_id := 2, active := True\<rparr>"

text \<open>
  A turn of the drain loop that gets as far as the call of \<open>output_decoded_frame\<close>
  (given a colour converter): a frame was received, its RGBA buffer allocated, the
  conversion succeeded, and neither dimension is 0.
\<close>

definition reaches_output :: "int \<Rightarrow> frame_answers \<Rightarrow> bool" where
  "reaches_output ret frame \<longleftrightarrow>
     0 \<le> ret \<and> rgba_alloc_ok frame \<and> 0 \<le> sws_scale_ret frame
     \<and> frame_width frame \<noteq> 0 \<and> frame_height frame \<noteq> 0"




section \<open>Properties of the bitstream normalizer\<close>

lemma read_be32_bytes:
  "read_be32 (ucast (drop_bit 24 w)) (ucast (drop_bit 16 w)) (ucast (drop_bit 8 w)) (ucast w) = (w :: 32 word)"
  unfolding read_be32_def
proof (rule bit_word_eqI)
  fix n :: nat
  assume n: "n < LENGTH(32)"
  consider "n < 8" | "8 \<le> n" "n < 16" | "16 \<le> n" "n < 24" | "24 \<le> n" by linarith
  then show "bit (push_bit 24 (ucast (ucast (drop_bit 24 w) :: byte)) OR push_bit 16 (ucast (ucast (drop_bit 16 w) :: byte)) OR
        push_bit 8 (ucast (ucast (drop_bit 8 w) :: byte)) OR ucast (ucast w :: byte) :: 32 word) n = bit w n"
    using n by cases (auto simp add: bit_simps)
qed

lemma length_be32_bytes [simp]: "length (be32_bytes w) = 4"
  by (simp add: be32_bytes_def)

lemma length_start_code [simp]: "length start_code = 4"
  by (simp add: start_code_def)

lemma length_length_prefixed [simp]: "length (length_prefixed p) = 4 + length p"
  by (simp add: length_prefixed_def)

lemma length_annex_b [simp]: "length (annex_b p) = 4 + length p"
  by (simp add: annex_b_def)

lemma read_header:
  assumes "length p < 2 ^ 32" and "data = pre @ length_prefixed p @ rest"
  shows "unat (read_be32 (data ! length pre) (data ! (length pre + 1))
                         (data ! (length pre + 2)) (data ! (length pre + 3))) = length p"
proof -
  have "read_be32 (data ! length pre) (data ! (length pre + 1))
                  (data ! (length pre + 2)) (data ! (length pre + 3)) = (of_nat (length p) :: 32 word)"
    unfolding assms(2)
    by (simp add: nth_append length_prefixed_def be32_bytes_def read_be32_bytes)
  then show ?thesis using assms(1) by (simp add: unat_of_nat)
qed

lemma convert_loop_step:
  assumes "pos + 4 \<le> length data"
    and "unat (read_be32 (data ! pos) (data ! (pos + 1)) (data ! (pos + 2)) (data ! (pos + 3))) = L"
    and "pos + 4 + L \<le> length data"
    and "length buf + 4 + L \<le> est"
  shows "convert_loop mem data pos est buf =
         convert_loop mem data (pos + 4 + L) est (buf @ start_code @ take L (drop (pos + 4) data))"
  by (subst convert_loop.simps, unfold Let_def assms(2)) (use assms(1,3,4) in simp)

lemma convert_loop_stop:
  "\<not> pos + 4 \<le> length data \<Longrightarrow> convert_loop mem data pos est buf = Inr (est, buf)"
  by (subst convert_loop.simps) simp

lemma convert_loop_overrun:
  assumes "pos + 4 \<le> length data"
    and "unat (read_be32 (data ! pos) (data ! (pos + 1)) (data ! (pos + 2)) (data ! (pos + 3))) = L"
    and "pos + 4 + L > length data"
  shows "convert_loop mem data pos est buf = Inl Invalid_nal_length"
  by (subst convert_loop.simps, unfold Let_def assms(2)) (use assms(1,3) in simp)

lemma convert_loop_capacity:
  "convert_loop mem data pos est buf = Inr (est', out) \<Longrightarrow> length buf \<le> est \<Longrightarrow> length out \<le> est'"
proof (induction mem data pos est buf rule: convert_loop.induct)
  case (1 mem data pos est buf)
  define L where "L = unat (read_be32 (data ! pos) (data ! (pos + 1)) (data ! (pos + 2)) (data ! (pos + 3)))"
  define buf' where "buf' = buf @ start_code @ take L (drop (pos + 4) data)"
  have unfold: "convert_loop mem data pos est buf =
     (if pos + 4 \<le> length data then
        if pos + 4 + L > length data then Inl Invalid_nal_length
        else if length buf + 4 + L > est then
          if \<not> mem (length buf + 4 + L + 1024) then Inl Alloc_failed
          else convert_loop mem data (pos + 4 + L) (length buf + 4 + L + 1024) buf'
        else convert_loop mem data (pos + 4 + L) est buf'
      else Inr (est, buf))"
    by (subst convert_loop.simps) (simp add: Let_def L_def buf'_def)
  have len: "length buf' \<le> length buf + 4 + L"
    by (simp add: buf'_def)
  show ?case
  proof (cases "pos + 4 \<le> length data \<and> pos + 4 + L \<le> length data")
    case False
    with "1.prems" unfold show ?thesis by (auto split: if_splits)
  next
    case True
    show ?thesis
    proof (cases "length buf + 4 + L > est")
      case grow: True
      with True "1.prems" unfold have m: "mem (length buf + 4 + L + 1024)"
        and run: "convert_loop mem data (pos + 4 + L) (length buf + 4 + L + 1024) buf' = Inr (est', out)"
        by (auto split: if_splits)
      show ?thesis
        using "1.IH"(1) [OF _ L_def refl _ _ refl] True grow m run len
        by (simp add: buf'_def)
    next
      case fits: False
      with True "1.prems" unfold have run: "convert_loop mem data (pos + 4 + L) est buf' = Inr (est', out)"
        by (auto split: if_splits)
      show ?thesis
        using "1.IH"(2) [OF _ L_def refl] True fits run len
        by (simp add: buf'_def)
    qed
  qed
qed

text \<open>
  The loop on a run of well-formed units followed by any \<open>tail\<close>: it copies the units and
  goes on at the tail, without ever growing the buffer as long as the capacity covers
  the bytes of the units.
\<close>

lemma convert_loop_units:
  "\<forall>p \<in> set nals. length p < 2 ^ 32 \<Longrightarrow>
   length buf + length (concat (map length_prefixed nals)) \<le> est \<Longrightarrow>
   convert_loop mem (pre @ concat (map length_prefixed nals) @ tail) (length pre) est buf =
   convert_loop mem (pre @ concat (map length_prefixed nals) @ tail)
     (length pre + length (concat (map length_prefixed nals))) est (buf @ concat (map annex_b nals))"
proof (induction nals arbitrary: pre buf)
  case Nil
  then show ?case by simp
next
  case (Cons p nals)
  let ?units = "concat (map length_prefixed nals)"
  let ?data = "pre @ length_prefixed p @ ?units @ tail"
  have len: "length p < 2 ^ 32" using Cons.prems by simp
  have hdr: "unat (read_be32 (?data ! length pre) (?data ! (length pre + 1)) (?data ! (length pre + 2)) (?data ! (length pre + 3))) = length p"
    by (rule read_header [OF len refl])
  have data_eq: "pre @ concat (map length_prefixed (p # nals)) @ tail = ?data" by simp
  have pos_eq: "length pre + 4 + length p = length (pre @ length_prefixed p)" by simp
  have step: "convert_loop mem ?data (length pre) est buf =
     convert_loop mem ?data (length pre + 4 + length p) est (buf @ start_code @ p)"
    using convert_loop_step [OF _ hdr, where est = est and buf = buf and mem = mem] Cons.prems(2)
    by (simp add: length_prefixed_def be32_bytes_def)
  have IH: "convert_loop mem ?data (length pre + 4 + length p) est (buf @ start_code @ p) =
     convert_loop mem ?data (length pre + 4 + length p + length ?units) est
       ((buf @ start_code @ p) @ concat (map annex_b nals))"
    using Cons.IH [of "buf @ start_code @ p" "pre @ length_prefixed p"] Cons.prems
    unfolding pos_eq by simp
  show ?case
    unfolding data_eq step IH by (simp add: annex_b_def [of p] add.assoc)
qed

lemma length_units: "length (concat (map length_prefixed nals)) = sum_list (map length nals) + 4 * length nals"
  by (induction nals) simp_all

lemma length_annex_b_units: "length (concat (map annex_b nals)) = sum_list (map length nals) + 4 * length nals"
  by (induction nals) simp_all

lemma convert_units_trailing:
  assumes "\<forall>p \<in> set nals. length p < 2 ^ 32" and "length trailing < 4"
    and "mem (length (concat (map length_prefixed nals) @ trailing) + 1024)"
  shows "convert_mp4_nal_units_to_annex_b mem (concat (map length_prefixed nals) @ trailing)
           = Inr (concat (map annex_b nals))"
proof -
  let ?units = "concat (map length_prefixed nals)"
  have "convert_loop mem ([] @ ?units @ trailing) (length ([] :: byte list)) (length (?units @ trailing) + 1024) []
        = convert_loop mem ([] @ ?units @ trailing) (length ([] :: byte list) + length ?units)
            (length (?units @ trailing) + 1024) ([] @ concat (map annex_b nals))"
    by (rule convert_loop_units [OF assms(1)]) simp
  also have "\<dots> = Inr (length (?units @ trailing) + 1024, concat (map annex_b nals))"
    using assms(2) by (simp add: convert_loop_stop)
  finally show ?thesis
    using assms(3) by (simp add: convert_mp4_nal_units_to_annex_b_def)
qed

lemma convert_units_overrun:
  assumes "\<forall>p \<in> set nals. length p < 2 ^ 32"
    and "unat (read_be32 b0 b1 b2 b3) > length rest"
  shows "isl (convert_mp4_nal_units_to_annex_b mem (concat (map length_prefixed nals) @ [b0, b1, b2, b3] @ rest))"
proof -
  let ?units = "concat (map length_prefixed nals)"
  let ?tail = "[b0, b1, b2, b3] @ rest"
  let ?data = "[] @ ?units @ ?tail"
  have "convert_loop mem ?data (length ([] :: byte list)) (length (?units @ ?tail) + 1024) []
        = convert_loop mem ?data (length ([] :: byte list) + length ?units)
            (length (?units @ ?tail) + 1024) ([] @ concat (map annex_b nals))"
    by (rule convert_loop_units [OF assms(1)]) simp
  also have "\<dots> = Inl Invalid_nal_length"
  proof (rule convert_loop_overrun)
    show "length [] + length ?units + 4 \<le> length ?data" by simp
    show "unat (read_be32 (?data ! (length [] + length ?units)) (?data ! (length [] + length ?units + 1))
            (?data ! (length [] + length ?units + 2)) (?data ! (length [] + length ?units + 3)))
          = unat (read_be32 b0 b1 b2 b3)"
      by (simp add: nth_append)
    show "length ?data < length [] + length ?units + 4 + unat (read_be32 b0 b1 b2 b3)"
      using assms(2) by simp
  qed
  finally show ?thesis
    by (simp add: convert_mp4_nal_units_to_annex_b_def Let_def)
qed

section \<open>Properties of traces\<close>

lemma sent_packets_append [simp]: "sent_packets (xs @ ys) = sent_packets xs @ sent_packets ys"
  by (induction xs rule: sent_packets.induct) simp_all

lemma frame_closes_append [simp]: "frame_closes (xs @ ys) = frame_closes xs @ frame_closes ys"
  by (induction xs rule: frame_closes.induct) simp_all

lemma closed_resources_append [simp]: "closed_resources (xs @ ys) = closed_resources xs @ closed_resources ys"
  by (induction xs rule: closed_resources.induct) simp_all

lemma video_timestamps_append [simp]: "video_timestamps (xs @ ys) = video_timestamps xs @ video_timestamps ys"
  by (induction xs rule: video_timestamps.induct) simp_all

lemma decoder_events_silent:
  "list_all decoder_event evs \<Longrightarrow> sent_packets evs = [] \<and> frame_closes evs = [] \<and> closed_resources evs = []"
proof (induction evs)
  case (Cons e evs)
  then show ?case by (cases e) simp_all
qed simp

lemma output_decoded_frame_events:
  "output_decoded_frame now ctx data w h p = (copt, evs) \<Longrightarrow> list_all decoder_event evs"
  by (auto simp add: output_decoded_frame_def Let_def split: option.splits prod.splits if_splits)

lemma drain_loop_events:
  "drain_loop answers pts decoder ctx n success = (decoder', ctx', success', evs)
     \<Longrightarrow> list_all decoder_event evs"
proof (induction answers arbitrary: decoder ctx n success decoder' ctx' success' evs)
  case Nil
  then show ?case by simp
next
  case (Cons a answers)
  show ?case
  proof (cases a)
    case Av_frame_alloc_null
    with Cons.prems show ?thesis by auto
  next
    case (Receive ret frame)
    with Cons.prems show ?thesis
      by (auto simp add: Let_def split: if_splits prod.splits
               dest: output_decoded_frame_events Cons.IH)
  qed
qed

lemma decode_frame_events:
  assumes "decode_frame env decoder data pts ctx = (ctx', ok, evs)"
  shows "frame_closes evs = [] \<and> closed_resources evs = []"
proof -
  have drain: "frame_closes es = [] \<and> closed_resources es = []"
    if "drain_loop (receive_answers env) pts decoder ctx 0 False = (d, c, s, es)" for d c s es
    using decoder_events_silent [OF drain_loop_events [OF that]] by simp
  show ?thesis
    using assms drain
    by (auto simp add: decode_frame_def Let_def split: sum.splits convert_error.splits if_splits prod.splits)
qed

lemma nvdec_decoder_decode_events:
  assumes "nvdec_decoder_decode env ctx data pts kf = (ctx', ok, evs)"
  shows "frame_closes evs = [] \<and> closed_resources evs = []"
  using assms decode_frame_events
  by (auto simp add: nvdec_decoder_decode_def split: option.splits)

section \<open>Frame release in the callbacks\<close>

text \<open>
  Claim C3. For every invocation of the video-frame or the audio-frame callback with
  \<open>frame_id > 0\<close>, the trace of the callback contains exactly one
  \<open>moq_consume_frame_close\<close>, and it is the one of \<open>frame_id\<close>: whatever the context
  (NULL, inactive, deactivated while the callback waited for the gate, without decoder),
  whatever the chunk read and the decoder answer.
\<close>

theorem frame_release_balance:
  assumes "0 < frame_id"
  shows "frame_closes (snd (on_video_frame env user_data frame_id)) = [frame_id]
       \<and> frame_closes (snd (on_audio_frame env user_data frame_id)) = [frame_id]"
proof
  show "frame_closes (snd (on_video_frame env user_data frame_id)) = [frame_id]"
    using assms
    by (auto simp add: on_video_frame_def Let_def split: option.splits prod.splits
             dest: nvdec_decoder_decode_events)
  show "frame_closes (snd (on_audio_frame env user_data frame_id)) = [frame_id]"
    using assms
    by (auto simp add: on_audio_frame_def Let_def split: option.splits prod.splits)
qed

theorem frame_release_balance_witness:
  "(0 :: int) < 9
   \<and> frame_closes (snd (on_video_frame (callback_env [0, 0, 0, 1, 0x68] [Receive 0 (decoded_frame 1000000)])
        (Some streaming_context) 9)) = [9]
   \<and> frame_closes (snd (on_audio_frame (callback_env [0, 0, 0, 1, 0x68] [])
        (Some streaming_context) 9)) = [9]"
  using frame_release_balance [of 9 "callback_env [0, 0, 0, 1, 0x68] [Receive 0 (decoded_frame 1000000)]" "Some streaming_context"]
        frame_release_balance [of 9 "callback_env [0, 0, 0, 1, 0x68] []" "Some streaming_context"]
  by simp

section \<open>The normalizer on well-formed and on malformed input\<close>

text \<open>
  Claim C4. An input that is exactly \<open>N\<close> length-prefixed NAL units (4-byte big-endian
  length, then that many payload bytes, no trailing bytes) is converted successfully,
  provided the one allocation of \<open>size + 1024\<close> bytes succeeds; the output is the payloads
  in their order, each right after the start code \<open>00 00 00 01\<close>, and its size is the sum
  \<open>S\<close> of the payload lengths plus \<open>4N\<close>.
\<close>

theorem normalizer_round_trip:
  assumes "\<forall>p \<in> set nals. length p < 2 ^ 32"
    and "mem (length (concat (map length_prefixed nals)) + 1024)"
  shows "\<exists>out. convert_mp4_nal_units_to_annex_b mem (concat (map length_prefixed nals)) = Inr out
           \<and> out = concat (map annex_b nals)
           \<and> length out = sum_list (map length nals) + 4 * length nals"
  using convert_units_trailing [OF assms(1), of "[]" mem] assms(2)
  by (simp add: length_annex_b_units)

theorem normalizer_round_trip_witness:
  "concat (map length_prefixed [[0x67, 0x42], [0x68]]) = [0, 0, 0, 2, 0x67, 0x42, 0, 0, 0, 1, 0x68]
   \<and> convert_mp4_nal_units_to_annex_b (\<lambda>n. True) [0, 0, 0, 2, 0x67, 0x42, 0, 0, 0, 1, 0x68]
        = Inr [0, 0, 0, 1, 0x67, 0x42, 0, 0, 0, 1, 0x68]"
proof -
  have input: "concat (map length_prefixed [[0x67, 0x42], [0x68 :: byte]]) = [0, 0, 0, 2, 0x67, 0x42, 0, 0, 0, 1, 0x68]"
    by (simp add: length_prefixed_def be32_bytes_def drop_bit_eq_div)
  have "convert_mp4_nal_units_to_annex_b (\<lambda>n. True) (concat (map length_prefixed [[0x67, 0x42], [0x68]]))
          = Inr (concat (map annex_b [[0x67, 0x42], [0x68]]))"
    using normalizer_round_trip [of "[[0x67, 0x42], [0x68]]" "\<lambda>n. True"] by simp
  then show ?thesis
    unfolding input by (simp add: annex_b_def start_code_def)
qed

text \<open>
  Claim C10. Fewer than 4 remaining bytes end the input: up to 3 bytes after the last
  complete unit are dropped and the conversion still succeeds with the units' output;
  an input shorter than 4 bytes (the empty one included) converts to the empty output,
  and \<open>decode_frame\<close> then submits that empty packet to the decoder.
\<close>

theorem normalizer_short_tail:
  "((\<forall>p \<in> set nals. length p < 2 ^ 32) \<and> length trailing < 4
      \<and> mem (length (concat (map length_prefixed nals) @ trailing) + 1024)
     \<longrightarrow> convert_mp4_nal_units_to_annex_b mem (concat (map length_prefixed nals) @ trailing)
           = Inr (concat (map annex_b nals)))
   \<and> (length data < 4 \<and> bzalloc_ok env (length data + 1024) \<and> av_packet_alloc_ok env
     \<longrightarrow> convert_mp4_nal_units_to_annex_b (bzalloc_ok env) data = Inr []
         \<and> sent_packets (snd (snd (decode_frame env decoder data pts ctx))) = [[]])"
proof (intro conjI impI)
  assume "(\<forall>p \<in> set nals. length p < 2 ^ 32) \<and> length trailing < 4
      \<and> mem (length (concat (map length_prefixed nals) @ trailing) + 1024)"
  then show "convert_mp4_nal_units_to_annex_b mem (concat (map length_prefixed nals) @ trailing)
           = Inr (concat (map annex_b nals))"
    using convert_units_trailing [of nals trailing mem] by blast
next
  assume a: "length data < 4 \<and> bzalloc_ok env (length data + 1024) \<and> av_packet_alloc_ok env"
  then show conv: "convert_mp4_nal_units_to_annex_b (bzalloc_ok env) data = Inr []"
    using convert_units_trailing [of "[]" data "bzalloc_ok env"] by simp
  have drain: "sent_packets es = []"
    if "drain_loop (receive_answers env) pts decoder ctx 0 False = (d, c, s, es)" for d c s es
    using decoder_events_silent [OF drain_loop_events [OF that]] by simp
  show "sent_packets (snd (snd (decode_frame env decoder data pts ctx))) = [[]]"
    using a drain by (auto simp add: decode_frame_def conv Let_def split: prod.splits)
qed

theorem normalizer_short_tail_witness:
  "length [0xAA, 0xBB :: byte] < 4
   \<and> concat (map length_prefixed [[0x68 :: byte]]) @ [0xAA, 0xBB] = [0, 0, 0, 1, 0x68, 0xAA, 0xBB]
   \<and> convert_mp4_nal_units_to_annex_b (\<lambda>n. True) [0, 0, 0, 1, 0x68, 0xAA, 0xBB] = Inr [0, 0, 0, 1, 0x68]
   \<and> (length [0xAA, 0xBB :: byte] < 4 \<and> bzalloc_ok (decoding_env []) (length [0xAA, 0xBB :: byte] + 1024)
        \<and> av_packet_alloc_ok (decoding_env []))
   \<and> convert_mp4_nal_units_to_annex_b (bzalloc_ok (decoding_env [])) [0xAA, 0xBB] = Inr []
   \<and> sent_packets (snd (snd (decode_frame (decoding_env []) \<lparr>codec_ctx = None, sws_ctx = False\<rparr>
         [0xAA, 0xBB] 0 streaming_context))) = [[]]"
proof -
  have input: "concat (map length_prefixed [[0x68 :: byte]]) @ [0xAA, 0xBB] = [0, 0, 0, 1, 0x68, 0xAA, 0xBB]"
    by (simp add: length_prefixed_def be32_bytes_def drop_bit_eq_div)
  have "convert_mp4_nal_units_to_annex_b (\<lambda>n. True) (concat (map length_prefixed [[0x68 :: byte]]) @ [0xAA, 0xBB])
          = Inr (concat (map annex_b [[0x68]]))"
    using normalizer_short_tail [of "[[0x68]]" "[0xAA, 0xBB]" "\<lambda>n. True"] by simp
  then have first: "convert_mp4_nal_units_to_annex_b (\<lambda>n. True) [0, 0, 0, 1, 0x68, 0xAA, 0xBB] = Inr [0, 0, 0, 1, 0x68]"
    unfolding input by (simp add: annex_b_def start_code_def)
  have second: "convert_mp4_nal_units_to_annex_b (bzalloc_ok (decoding_env [])) [0xAA, 0xBB] = Inr []
     \<and> sent_packets (snd (snd (decode_frame (decoding_env []) \<lparr>codec_ctx = None, sws_ctx = False\<rparr>
         [0xAA, 0xBB] 0 streaming_context))) = [[]]"
    using normalizer_short_tail [of _ _ _ "[0xAA, 0xBB]" "decoding_env []"]
    by (simp add: decoding_env_def)
  show ?thesis using first second input by (simp add: decoding_env_def)
qed

text \<open>
  Claim C7. When, after any number of well-formed units, a declared length \<open>L\<close> overruns
  the bytes that remain (\<open>pos + L > size\<close>), the conversion fails whatever the allocator
  does, so no output exists; \<open>decode_frame\<close> answers false without calling
  \<open>avcodec_send_packet\<close> and leaves the context as it was; and the video callback that
  received the packet only locks, logs, unlocks and releases the frame: it writes nothing
  to the context (\<open>active\<close> stays true) and closes no origin, session, broadcast, catalog
  or track handle.
\<close>

theorem malformed_length_drops_packet:
  assumes units: "\<forall>p \<in> set nals. length p < 2 ^ 32"
    and overrun: "length rest < unat (read_be32 b0 b1 b2 b3)"
    and data: "data = concat (map length_prefixed nals) @ [b0, b1, b2, b3] @ rest"
    and chunk: "payload (moq_consume_frame_chunk_frame env) = data" "0 \<le> moq_consume_frame_chunk_ret env"
    and live: "active ctx" "0 < frame_id" "active (concurrent_writes env ctx)"
              "nvdec_context (concurrent_writes env ctx) = Some decoder"
  shows "isl (convert_mp4_nal_units_to_annex_b mem data)
       \<and> (\<exists>evs. decode_frame denv decoder data pts ctx = (ctx, False, evs) \<and> sent_packets evs = [])
       \<and> (\<exists>evs. on_video_frame env (Some ctx) frame_id = (Some (concurrent_writes env ctx), evs)
              \<and> sent_packets evs = [] \<and> closed_resources evs = [] \<and> frame_closes evs = [frame_id])"
proof -
  have fails: "isl (convert_mp4_nal_units_to_annex_b m data)" for m
    unfolding data by (rule convert_units_overrun [OF units overrun])
  have dec: "\<exists>evs. decode_frame e decoder data p c = (c, False, evs) \<and> sent_packets evs = []
                \<and> closed_resources evs = [] \<and> frame_closes evs = []" for e p c
    using fails [of "bzalloc_ok e"]
    by (auto simp add: decode_frame_def isl_def split: convert_error.splits)
  obtain evs where evs: "decode_frame (decoding env) decoder data (timestamp_us (moq_consume_frame_chunk_frame env))
       (concurrent_writes env ctx) = (concurrent_writes env ctx, False, evs)"
      "sent_packets evs = []" "closed_resources evs = []" "frame_closes evs = []"
    using dec by blast
  have cb: "\<exists>evs. on_video_frame env (Some ctx) frame_id = (Some (concurrent_writes env ctx), evs)
              \<and> sent_packets evs = [] \<and> closed_resources evs = [] \<and> frame_closes evs = [frame_id]"
    using chunk live evs
    by (simp add: on_video_frame_def nvdec_decoder_decode_def Let_def)
  show ?thesis using fails dec cb by blast
qed

theorem malformed_length_drops_packet_witness:
  "length [0x65 :: byte] < unat (read_be32 0 0 0 5)
   \<and> [0, 0, 0, 1, 0x68, 0, 0, 0, 5, 0x65] = concat (map length_prefixed [[0x68 :: byte]]) @ [0, 0, 0, 5] @ [0x65]
   \<and> convert_mp4_nal_units_to_annex_b (\<lambda>n. True) [0, 0, 0, 1, 0x68, 0, 0, 0, 5, 0x65] = Inl Invalid_nal_length
   \<and> on_video_frame (callback_env [0, 0, 0, 1, 0x68, 0, 0, 0, 5, 0x65] [Receive 0 (decoded_frame 1000000)])
        (Some streaming_context) 9
      = (Some streaming_context,
         [Lock decoder_mutex, Log LOG_ERROR, Log LOG_ERROR, Unlock decoder_mutex, Frame_close 9])"
proof -
  have input: "[0, 0, 0, 1, 0x68, 0, 0, 0, 5, 0x65] = concat (map length_prefixed [[0x68 :: byte]]) @ [0, 0, 0, 5] @ [0x65]"
    by (simp add: length_prefixed_def be32_bytes_def drop_bit_eq_div)
  have len: "length [0x65 :: byte] < unat (read_be32 0 0 0 5)"
    by (simp add: read_be32_def)
  have units: "\<forall>p \<in> set [[0x68 :: byte]]. length p < 2 ^ 32" by simp
  let ?env = "callback_env [0, 0, 0, 1, 0x68, 0, 0, 0, 5, 0x65] [Receive 0 (decoded_frame 1000000)]"
  note inst = malformed_length_drops_packet [OF units len input, of "?env" streaming_context 9
      "\<lparr>codec_ctx = Some \<lparr>codec_id = AV_CODEC_ID_H264, extradata = None\<rparr>, sws_ctx = False\<rparr>" "\<lambda>n. True"]
  have fails: "isl (convert_mp4_nal_units_to_annex_b (\<lambda>n. True) [0, 0, 0, 1, 0x68, 0, 0, 0, 5, 0x65])"
    using inst by (simp add: callback_env_def streaming_context_def)
  have conv: "convert_mp4_nal_units_to_annex_b (\<lambda>n. True) [0, 0, 0, 1, 0x68, 0, 0, 0, 5, 0x65] = Inl Invalid_nal_length"
    using fails by (simp add: convert_mp4_nal_units_to_annex_b_def convert_loop.simps read_be32_def start_code_def Let_def)
  have cb: "on_video_frame ?env (Some streaming_context) 9
      = (Some streaming_context,
         [Lock decoder_mutex, Log LOG_ERROR, Log LOG_ERROR, Unlock decoder_mutex, Frame_close 9])"
    by (simp add: on_video_frame_def callback_env_def streaming_context_def nvdec_decoder_decode_def
          decode_frame_def decoding_env_def conv)
  show ?thesis using units len input conv cb by blast
qed

section \<open>Properties of emission and of the timestamp mapper\<close>






















section \<open>Properties of the codec selection\<close>

lemma take_guard:
  "length p = n \<Longrightarrow> (n \<le> length s \<and> take n s = p) \<longleftrightarrow> prefix p s"
proof
  assume "n \<le> length s \<and> take n s = p"
  then have "p = take n s" by simp
  then show "prefix p s" by (simp add: take_is_prefix)
next
  assume "prefix p s" and "length p = n"
  then show "n \<le> length s \<and> take n s = p"
    by (auto simp add: prefix_def)
qed

lemma take_guard_nocase:
  "length p = n \<Longrightarrow> (n \<le> length s \<and> map tolower (take n s) = p) \<longleftrightarrow> prefix p (map tolower s)"
  using take_guard [of p n "map tolower s"] by (simp add: take_map)

lemma parse_codec_id_cases:
  "parse_codec_id (Some s) =
     (if s = [] then (AV_CODEC_ID_H264, [])
      else if prefix ''avc1'' s \<or> prefix ''h264'' (map tolower s) then (AV_CODEC_ID_H264, [])
      else if prefix ''hev1'' s \<or> prefix ''hvc1'' s \<or> prefix ''hevc'' (map tolower s)
              \<or> prefix ''h265'' (map tolower s) then (AV_CODEC_ID_HEVC, [])
      else if prefix ''av01'' s \<or> prefix ''av1'' (map tolower s) then (AV_CODEC_ID_AV1, [])
      else (AV_CODEC_ID_H264, [Log LOG_WARNING]))"
  unfolding parse_codec_id_def Let_def option.case
  by (simp only: take_guard [of _ 4 s, simplified] take_guard_nocase [of _ 4 s, simplified]
        take_guard_nocase [of _ 3 s, simplified] length_0_conv list.size)

lemma tolower_literals:
  "map tolower ''avc1'' = ''avc1''" "map tolower ''hev1'' = ''hev1''"
  "map tolower ''hvc1'' = ''hvc1''" "map tolower ''av01'' = ''av01''"
  by code_simp+

lemma lowered_prefix: "prefix p s \<Longrightarrow> prefix (map tolower p) (map tolower s)"
  by (rule map_mono_prefix)

lemma prefixes_comparable: "prefix p t \<Longrightarrow> prefix q t \<Longrightarrow> prefix p q \<or> prefix q p"
  by (rule prefix_same_cases) auto

text \<open>
  Claim C9, as amended. A codec string that starts with \<open>avc1\<close>, or with \<open>h264\<close> in any
  letter case, maps to H.264; one that starts with \<open>hev1\<close> or \<open>hvc1\<close>, or with \<open>hevc\<close> or
  \<open>h265\<close> in any letter case, maps to HEVC; one that starts with \<open>av01\<close>, or with \<open>av1\<close> in
  any letter case, maps to AV1; none of these logs. Every other string that is not empty
  logs a warning and falls back to H.264. The empty string and a NULL codec fall back to
  H.264 without a warning.
\<close>

theorem codec_mapping:
  "(prefix ''avc1'' s \<or> prefix ''h264'' (map tolower s)
      \<longrightarrow> parse_codec_id (Some s) = (AV_CODEC_ID_H264, []))
   \<and> (prefix ''hev1'' s \<or> prefix ''hvc1'' s \<or> prefix ''hevc'' (map tolower s)
        \<or> prefix ''h265'' (map tolower s)
      \<longrightarrow> parse_codec_id (Some s) = (AV_CODEC_ID_HEVC, []))
   \<and> (prefix ''av01'' s \<or> prefix ''av1'' (map tolower s)
      \<longrightarrow> parse_codec_id (Some s) = (AV_CODEC_ID_AV1, []))
   \<and> (s \<noteq> [] \<and> \<not> (prefix ''avc1'' s \<or> prefix ''h264'' (map tolower s))
        \<and> \<not> (prefix ''hev1'' s \<or> prefix ''hvc1'' s \<or> prefix ''hevc'' (map tolower s)
              \<or> prefix ''h265'' (map tolower s))
        \<and> \<not> (prefix ''av01'' s \<or> prefix ''av1'' (map tolower s))
      \<longrightarrow> parse_codec_id (Some s) = (AV_CODEC_ID_H264, [Log LOG_WARNING]))
   \<and> parse_codec_id (Some []) = (AV_CODEC_ID_H264, [])
   \<and> parse_codec_id None = (AV_CODEC_ID_H264, [])"
proof -
  let ?t = "map tolower s"
  let ?h264 = "prefix ''avc1'' s \<or> prefix ''h264'' ?t"
  let ?hevc = "prefix ''hev1'' s \<or> prefix ''hvc1'' s \<or> prefix ''hevc'' ?t \<or> prefix ''h265'' ?t"
  let ?av1 = "prefix ''av01'' s \<or> prefix ''av1'' ?t"
  have l264: "prefix ''avc1'' ?t \<or> prefix ''h264'' ?t" if ?h264
    using that lowered_prefix [of "''avc1''" s] by (auto simp only: tolower_literals)
  have lhevc: "prefix ''hev1'' ?t \<or> prefix ''hvc1'' ?t \<or> prefix ''hevc'' ?t \<or> prefix ''h265'' ?t" if ?hevc
    using that lowered_prefix [of "''hev1''" s] lowered_prefix [of "''hvc1''" s]
    by (auto simp only: tolower_literals)
  have lav1: "prefix ''av01'' ?t \<or> prefix ''av1'' ?t" if ?av1
    using that lowered_prefix [of "''av01''" s] by (auto simp only: tolower_literals)
  have not_both_1: "\<not> ?h264" if ?hevc
  proof
    assume ?h264
    from l264 [OF this] lhevc [OF that] show False
      by (auto dest: prefixes_comparable)
  qed
  have not_both_2: "\<not> ?h264 \<and> \<not> ?hevc" if ?av1
  proof (intro conjI notI)
    assume ?h264
    from l264 [OF this] lav1 [OF that] show False
      by (auto dest: prefixes_comparable)
  next
    assume ?hevc
    from lhevc [OF this] lav1 [OF that] show False
      by (auto dest: prefixes_comparable)
  qed
  have nonempty: "s \<noteq> []" if "?h264 \<or> ?hevc \<or> ?av1"
    using that by auto
  show ?thesis
    using not_both_1 not_both_2 nonempty
    by (simp only: parse_codec_id_cases) (auto simp add: parse_codec_id_def)
qed

text \<open>
  Claim C9 as stated fails for the empty codec string: it matches none of the names, and
  no warning is logged.
\<close>

theorem empty_codec_counterexample:
  "\<not> (prefix ''avc1'' [] \<or> prefix ''h264'' (map tolower []))
   \<and> \<not> (prefix ''hev1'' [] \<or> prefix ''hvc1'' [] \<or> prefix ''hevc'' (map tolower [])
          \<or> prefix ''h265'' (map tolower []))
   \<and> \<not> (prefix ''av01'' [] \<or> prefix ''av1'' (map tolower []))
   \<and> snd (parse_codec_id (Some [])) = []"
  by (simp add: parse_codec_id_def)

theorem codec_mapping_witness:
  "parse_codec_id (Some ''avc1.64001f'') = (AV_CODEC_ID_H264, [])
   \<and> parse_codec_id (Some ''H264'') = (AV_CODEC_ID_H264, [])
   \<and> parse_codec_id (Some ''hvc1.1.6.L93.B0'') = (AV_CODEC_ID_HEVC, [])
   \<and> parse_codec_id (Some ''av01.0.04M.08'') = (AV_CODEC_ID_AV1, [])
   \<and> parse_codec_id (Some ''vp09.00.10.08'') = (AV_CODEC_ID_H264, [Log LOG_WARNING])
   \<and> parse_codec_id (Some ''AVC1'') = (AV_CODEC_ID_H264, [Log LOG_WARNING])"
proof -
  have lower: "map tolower ''H264'' = ''h264''" "map tolower ''vp09.00.10.08'' = ''vp09.00.10.08''"
    "map tolower ''AVC1'' = ''avc1''"
    by code_simp+
  have 1: "parse_codec_id (Some ''avc1.64001f'') = (AV_CODEC_ID_H264, [])"
    using codec_mapping [of "''avc1.64001f''"] by simp
  have 2: "parse_codec_id (Some ''H264'') = (AV_CODEC_ID_H264, [])"
    using codec_mapping [of "''H264''", unfolded lower] by simp
  have 3: "parse_codec_id (Some ''hvc1.1.6.L93.B0'') = (AV_CODEC_ID_HEVC, [])"
    using codec_mapping [of "''hvc1.1.6.L93.B0''"] by simp
  have 4: "parse_codec_id (Some ''av01.0.04M.08'') = (AV_CODEC_ID_AV1, [])"
    using codec_mapping [of "''av01.0.04M.08''"] by simp
  have 5: "parse_codec_id (Some ''vp09.00.10.08'') = (AV_CODEC_ID_H264, [Log LOG_WARNING])"
    using codec_mapping [of "''vp09.00.10.08''", unfolded lower] by simp
  have 6: "parse_codec_id (Some ''AVC1'') = (AV_CODEC_ID_H264, [Log LOG_WARNING])"
    using codec_mapping [of "''AVC1''", unfolded lower] by simp
  show ?thesis using 1 2 3 4 5 6 by simp
qed

section \<open>Properties of bringup and teardown\<close>

lemma close_if_live_apply:
  "close_if_live r (c, evs) =
     (if 0 < handle r c then (set_handle r 0 c, evs @ [Close r (handle r c)]) else (c, evs))"
  by (simp add: close_if_live_def)

lemma handle_set_handle: "handle r' (set_handle r v c) = (if r' = r then v else handle r' c)"
  by (cases r; cases r') simp_all

lemma closed_close_if_live:
  "closed_resources (snd (close_if_live r s)) =
     closed_resources (snd s) @ (if 0 < handle r (fst s) then [r] else [])"
  by (cases s) (simp add: close_if_live_apply)

lemma handle_close_if_live:
  "handle r' (fst (close_if_live r s)) = (if r' = r \<and> 0 < handle r (fst s) then 0 else handle r' (fst s))"
  by (cases s) (simp add: close_if_live_apply handle_set_handle)

lemma active_close_if_live: "active (fst (close_if_live r s)) = active (fst s)"
  by (cases s; cases r) (simp_all add: close_if_live_apply)

text \<open>The six guarded closes in the order of \<open>hang_source_deactivate\<close>.\<close>

lemma teardown_closes:
  "closed_resources (snd (close_if_live origin (close_if_live session (close_if_live broadcast
      (close_if_live catalog_consumer (close_if_live video_track (close_if_live audio_track s)))))))
   = closed_resources (snd s) @ filter (\<lambda>r. 0 < handle r (fst s)) teardown_order"
  by (simp add: closed_close_if_live handle_close_if_live teardown_order_def)

lemma teardown_handles:
  "handle r (fst (close_if_live origin (close_if_live session (close_if_live broadcast
      (close_if_live catalog_consumer (close_if_live video_track (close_if_live audio_track s)))))))
   = (if 0 < handle r (fst s) then 0 else handle r (fst s))"
  by (cases r) (simp_all add: handle_close_if_live)

lemma deactivate_closes:
  "closed_resources (snd (hang_source_deactivate c)) =
     (if active c then filter (\<lambda>r. 0 < handle r c) teardown_order else [])"
proof (cases "active c")
  case False
  then show ?thesis by (simp add: hang_source_deactivate_def)
next
  case True
  have h: "handle r (c\<lparr>active := False\<rparr>) = handle r c" for r by (cases r) simp_all
  let ?s = "close_if_live origin (close_if_live session (close_if_live broadcast
      (close_if_live catalog_consumer (close_if_live video_track (close_if_live audio_track
        (c\<lparr>active := False\<rparr>, [Log LOG_INFO]))))))"
  have "closed_resources (snd (hang_source_deactivate c)) = closed_resources (snd ?s)"
    using True by (simp add: hang_source_deactivate_def Let_def split: prod.splits)
  also have "\<dots> = filter (\<lambda>r. 0 < handle r c) teardown_order"
    unfolding teardown_closes by (simp add: h)
  finally show ?thesis using True by simp
qed

lemma handle_unrelated_updates:
  "handle r (c\<lparr>active := a\<rparr>) = handle r c"
  "handle r (c\<lparr>frame_queue_len := n, audio_queue_len := m\<rparr>) = handle r c"
  "handle r (audio_decoder_destroy (nvdec_decoder_destroy c)) = handle r c"
  "handle r (c\<lparr>has_first_frame := b, first_frame_pts_us := p,
               first_frame_obs_time_ns := t, last_output_timestamp_ns := l\<rparr>) = handle r c"
  by (cases r; simp add: audio_decoder_destroy_def nvdec_decoder_destroy_def)+

lemma deactivate_handles:
  "handle r (fst (hang_source_deactivate c)) =
     (if active c \<and> 0 < handle r c then 0 else handle r c)"
proof (cases "active c")
  case False
  then show ?thesis by (simp add: hang_source_deactivate_def)
next
  case True
  let ?s = "close_if_live origin (close_if_live session (close_if_live broadcast
      (close_if_live catalog_consumer (close_if_live video_track (close_if_live audio_track
        (c\<lparr>active := False\<rparr>, [Log LOG_INFO]))))))"
  have "handle r (fst (hang_source_deactivate c)) = handle r (fst ?s)"
    using True
    by (simp add: hang_source_deactivate_def Let_def handle_unrelated_updates split: prod.splits)
  also have "\<dots> = (if 0 < handle r c then 0 else handle r c)"
    unfolding teardown_handles by (simp add: handle_unrelated_updates)
  finally show ?thesis using True by simp
qed

lemma destroy_closes:
  "closed_resources (snd (hang_source_destroy c)) = filter (\<lambda>r. 0 < handle r c) teardown_order"
proof -
  let ?d = "hang_source_deactivate c"
  let ?s = "close_if_live origin (close_if_live session (close_if_live broadcast
      (close_if_live catalog_consumer (close_if_live video_track (close_if_live audio_track ?d)))))"
  have "closed_resources (snd (hang_source_destroy c)) = closed_resources (snd ?s)"
    by (simp add: hang_source_destroy_def Let_def split: prod.splits)
  also have "\<dots> = closed_resources (snd ?d) @ filter (\<lambda>r. 0 < handle r (fst ?d)) teardown_order"
    by (rule teardown_closes)
  also have "\<dots> = filter (\<lambda>r. 0 < handle r c) teardown_order"
    by (cases "active c") (simp_all add: deactivate_closes deactivate_handles)
  finally show ?thesis .
qed

lemma parse_codec_id_closes: "closed_resources (snd (parse_codec_id codec)) = []"
  by (cases codec) (simp_all add: parse_codec_id_def Let_def)

lemma nvdec_decoder_init_closes:
  "closed_resources (snd (snd (nvdec_decoder_init env c codec description))) = []"
  using parse_codec_id_closes [of codec]
  by (cases "parse_codec_id codec")
     (simp add: nvdec_decoder_init_def Let_def split: option.splits)

lemma on_catalog_closes:
  "closed_resources (snd (on_catalog env (Some c) catalog_id)) =
     (if active c \<and> 0 < catalog_id then filter (\<lambda>r. 0 < handle r c) [video_track, audio_track] else [])"
proof (cases "active c \<and> 0 < catalog_id")
  case False
  then show ?thesis by (auto simp add: on_catalog_def)
next
  case True
  let ?s = "close_if_live audio_track (close_if_live video_track (c, [Log LOG_INFO]))"
  have "closed_resources (snd (on_catalog env (Some c) catalog_id)) = closed_resources (snd ?s)"
    using True
    by (simp add: on_catalog_def Let_def case_prod_beta audio_decoder_init_def nvdec_decoder_init_closes)
  also have "\<dots> = filter (\<lambda>r. 0 < handle r c) [video_track, audio_track]"
    by (simp add: closed_close_if_live handle_close_if_live)
  finally show ?thesis using True by simp
qed

lemma activate_closes:
  "subseq (closed_resources (snd (hang_source_activate env c))) teardown_order"
  by (simp add: hang_source_activate_def activate_cleanup_def closed_close_if_live teardown_order_def
        Let_def split: option.splits)

lemma session_status_closes:
  "subseq (closed_resources (snd (on_session_status env user_data code))) teardown_order"
  by (simp add: on_session_status_def teardown_order_def Let_def split: option.splits)

text \<open>
  Claim C6, as amended. \<open>hang_source_deactivate\<close>, when it finds the source active,
  closes exactly the handles that are live, in the order audio track, video track,
  catalog consumer, broadcast consumer, session, origin; when the source is not active
  it closes nothing. \<open>hang_source_destroy\<close> closes the live handles in that order in
  every state. The closes of \<open>hang_source_activate\<close> and of \<open>on_session_status\<close> follow
  that order too. A catalog update is the exception: \<open>on_catalog\<close>, on an active source
  and with a catalog id above 0, closes the live track handles video track first, audio
  track second (and closes nothing otherwise).
\<close>

theorem teardown_order_per_operation:
  "closed_resources (snd (hang_source_deactivate c)) =
     (if active c then filter (\<lambda>r. 0 < handle r c) teardown_order else [])
   \<and> closed_resources (snd (hang_source_destroy c)) = filter (\<lambda>r. 0 < handle r c) teardown_order
   \<and> closed_resources (snd (on_catalog cenv (Some c) catalog_id)) =
     (if active c \<and> 0 < catalog_id then filter (\<lambda>r. 0 < handle r c) [video_track, audio_track] else [])
   \<and> subseq (closed_resources (snd (hang_source_activate aenv c))) teardown_order
   \<and> subseq (closed_resources (snd (on_session_status senv user_data code))) teardown_order"
  using deactivate_closes destroy_closes on_catalog_closes activate_closes session_status_closes
  by blast

text \<open>
  Claim C6 as stated fails on a catalog update with both tracks subscribed: the video
  track is closed before the audio track.
\<close>

theorem catalog_update_counterexample:
  "closed_resources (snd (on_catalog (catalog_answers ''hev1'') (Some streaming_context) 1))
     = [video_track, audio_track]
   \<and> \<not> subseq (closed_resources (snd (on_catalog (catalog_answers ''hev1'') (Some streaming_context) 1)))
          teardown_order"
proof -
  have "closed_resources (snd (on_catalog (catalog_answers ''hev1'') (Some streaming_context) 1))
     = [video_track, audio_track]"
    by (simp add: on_catalog_closes streaming_context_def)
  then show ?thesis by (simp add: teardown_order_def)
qed

theorem teardown_order_per_operation_witness:
  "closed_resources (snd (hang_source_deactivate streaming_context))
     = [audio_track, video_track, catalog_consumer, broadcast, session, origin]
   \<and> closed_resources (snd (hang_source_destroy streaming_context))
     = [audio_track, video_track, catalog_consumer, broadcast, session, origin]
   \<and> closed_resources (snd (on_catalog (catalog_answers ''hev1'') (Some streaming_context) 1))
     = [video_track, audio_track]
   \<and> closed_resources (snd (hang_source_deactivate (streaming_context\<lparr>active := False\<rparr>))) = []"
  using teardown_order_per_operation [of streaming_context "catalog_answers ''hev1''" 1]
        teardown_order_per_operation [of "streaming_context\<lparr>active := False\<rparr>"]
  by (simp add: teardown_order_def streaming_context_def)

text \<open>
  Claim C2, evaluated where the code departs from it. Bringup creates origin 1 and
  session 2; the session connects and \<open>moq_origin_consume\<close> fails with \<open>-1\<close>. The status
  callback clears \<open>active\<close> and closes nothing; since \<open>active\<close> is now false, a following
  \<open>hang_source_deactivate\<close> returns at once, so session 2 and origin 1 stay open, and the
  next \<open>hang_source_activate\<close> overwrites both handles without closing them.
\<close>

theorem broadcast_failure_leaves_session_open:
  "hang_source_activate \<lparr>moq_origin_create_ret = 1, moq_session_connect_ret = 2\<rparr> idle_context
     = (connecting_context, [Log LOG_INFO, Create origin 1, Create session 2, Log LOG_INFO])
   \<and> on_session_status \<lparr>moq_origin_consume_ret = - 1, moq_consume_catalog_ret = 0\<rparr>
        (Some connecting_context) 0
     = (Some (connecting_context\<lparr>broadcast_id := - 1, active := False\<rparr>),
        [Log LOG_INFO, Create broadcast (- 1), Log LOG_ERROR])
   \<and> hang_source_deactivate (connecting_context\<lparr>broadcast_id := - 1, active := False\<rparr>)
     = (connecting_context\<lparr>broadcast_id := - 1, active := False\<rparr>, [])
   \<and> session_id (connecting_context\<lparr>broadcast_id := - 1, active := False\<rparr>) = 2
   \<and> origin_id (connecting_context\<lparr>broadcast_id := - 1, active := False\<rparr>) = 1
   \<and> hang_source_activate \<lparr>moq_origin_create_ret = 11, moq_session_connect_ret = 12\<rparr>
        (connecting_context\<lparr>broadcast_id := - 1, active := False\<rparr>)
     = (connecting_context\<lparr>broadcast_id := - 1, origin_id := 11, session_id := 12\<rparr>,
        [Log LOG_INFO, Create origin 11, Create session 12, Log LOG_INFO])"
  by (simp add: hang_source_activate_def on_session_status_def hang_source_deactivate_def
        connecting_context_def idle_context_def prefix_def)

section \<open>The decoder gate in the video callback\<close>

lemma output_decoded_frame_gate:
  "count_list (snd (output_decoded_frame now (Some c) (Some d) w h p)) (Unlock decoder_mutex) = 1
   \<and> count_list (snd (output_decoded_frame now (Some c) (Some d) w h p)) (Lock decoder_mutex) = 0"
  by (simp add: output_decoded_frame_def Let_def split: prod.splits)

lemma output_decoded_frame_Some:
  "\<exists>c' evs. output_decoded_frame now (Some c) (Some d) w h p = (Some c', evs)"
  by (simp add: output_decoded_frame_def Let_def split: prod.splits)

lemma drain_loop_no_gate_lock:
  "drain_loop answers pts decoder ctx n success = (decoder', ctx', success', evs)
     \<Longrightarrow> count_list evs (Lock decoder_mutex) = 0"
proof (induction answers arbitrary: decoder ctx n success decoder' ctx' success' evs)
  case Nil
  then show ?case by simp
next
  case (Cons a answers)
  show ?case
  proof (cases a)
    case Av_frame_alloc_null
    with Cons.prems show ?thesis by auto
  next
    case (Receive ret frame)
    have gate: "count_list es (Lock decoder_mutex) = 0"
      if "output_decoded_frame now (Some c) (Some d) w h p = (copt, es)" for now c d w h p copt es
      using output_decoded_frame_gate [of now c d w h p] that by simp
    from Cons.prems Receive show ?thesis
      by (auto simp add: Let_def split: if_splits prod.splits dest: gate Cons.IH)
  qed
qed

lemma drain_emit_unlocks:
  assumes "reaches_output r f" and "sws_ctx decoder \<or> sws_getContext_ok f"
  shows "\<exists>c'. count_list (snd (snd (snd (drain_loop (Receive r f # rest) pts decoder c n s)))) (Unlock decoder_mutex)
        = 1 + count_list (snd (snd (snd (drain_loop rest pts (decoder\<lparr>sws_ctx := True\<rparr>) c' (n + 1) True))))
                (Unlock decoder_mutex)"
proof -
  let ?p = "if frame_pts f \<noteq> AV_NOPTS_VALUE then frame_pts f else pts"
  obtain c' evs where out: "output_decoded_frame (os_gettime_ns f) (Some c) (Some (rgba_data (n + 1)))
        (word_of_int (frame_width f)) (word_of_int (frame_height f)) ?p = (Some c', evs)"
    using output_decoded_frame_Some by blast
  have one: "count_list evs (Unlock decoder_mutex) = 1"
    using output_decoded_frame_gate [of "os_gettime_ns f" c "rgba_data (n + 1)"
        "word_of_int (frame_width f)" "word_of_int (frame_height f)" ?p] out by simp
  have "snd (snd (snd (drain_loop (Receive r f # rest) pts decoder c n s)))
      = evs @ snd (snd (snd (drain_loop rest pts (decoder\<lparr>sws_ctx := True\<rparr>) c' (n + 1) True)))"
    using assms out by (auto simp add: reaches_output_def Let_def case_prod_beta)
  then show ?thesis using one by (intro exI [of _ c']) simp
qed

text \<open>
  A frame that is received but not brought to \<open>output_decoded_frame\<close> (here the colour
  converter cannot be created) still sets \<open>success\<close>: the callback then neither unlocks the
  gate itself nor has it unlocked by an emission.
\<close>

lemma received_frame_without_output_keeps_gate:
  "snd (on_video_frame
          (callback_env [0, 0, 0, 1, 0x68] [Receive 0 ((decoded_frame 1000000)\<lparr>sws_getContext_ok := False\<rparr>)])
          (Some streaming_context) 9)
     = [Lock decoder_mutex, Send_packet [0, 0, 0, 1, 0x68] 1000000, Log LOG_ERROR,
        Bfree converted_data, Frame_close 9]"
proof -
  have conv: "convert_mp4_nal_units_to_annex_b (\<lambda>n. True) [0, 0, 0, 1, 0x68] = Inr [0, 0, 0, 1, 0x68]"
    by (simp add: convert_mp4_nal_units_to_annex_b_def convert_loop.simps read_be32_def start_code_def Let_def)
  show ?thesis
    by (simp add: on_video_frame_def nvdec_decoder_decode_def decode_frame_def callback_env_def
          decoding_env_def streaming_context_def decoded_frame_def conv Let_def)
qed

text \<open>
  Claim C1, evaluated where the code departs from it. When the drain loop of one packet
  brings two frames to \<open>output_decoded_frame\<close>, the callback has locked \<open>decoder_mutex\<close>
  once and unlocks it at least twice: each emission unlocks, and the second one runs
  with the gate already released.
\<close>

theorem two_frames_unlock_twice:
  assumes "active ctx" and "0 < frame_id" and "0 \<le> moq_consume_frame_chunk_ret env"
    and "active (concurrent_writes env ctx)"
    and "nvdec_context (concurrent_writes env ctx) = Some decoder"
    and "convert_mp4_nal_units_to_annex_b (bzalloc_ok (decoding env))
           (payload (moq_consume_frame_chunk_frame env)) = Inr converted"
    and "av_packet_alloc_ok (decoding env)" and "0 \<le> avcodec_send_packet_ret (decoding env)"
    and "receive_answers (decoding env) = Receive r1 f1 # Receive r2 f2 # rest"
    and "reaches_output r1 f1" and "sws_ctx decoder \<or> sws_getContext_ok f1"
    and "reaches_output r2 f2"
  shows "count_list (snd (on_video_frame env (Some ctx) frame_id)) (Lock decoder_mutex) = 1
       \<and> 2 \<le> count_list (snd (on_video_frame env (Some ctx) frame_id)) (Unlock decoder_mutex)"
proof -
  let ?c1 = "concurrent_writes env ctx"
  let ?pts = "timestamp_us (moq_consume_frame_chunk_frame env)"
  let ?drain = "drain_loop (Receive r1 f1 # Receive r2 f2 # rest) ?pts decoder ?c1 0 False"
  let ?evs = "snd (snd (snd ?drain))"
  obtain c' where first: "count_list ?evs (Unlock decoder_mutex)
      = 1 + count_list (snd (snd (snd (drain_loop (Receive r2 f2 # rest) ?pts
              (decoder\<lparr>sws_ctx := True\<rparr>) c' (0 + 1) True)))) (Unlock decoder_mutex)"
    using drain_emit_unlocks [OF assms(10,11)] by blast
  have sws: "sws_ctx (decoder\<lparr>sws_ctx := True\<rparr>) \<or> sws_getContext_ok f2" by simp
  obtain c'' where second: "count_list (snd (snd (snd (drain_loop (Receive r2 f2 # rest) ?pts
              (decoder\<lparr>sws_ctx := True\<rparr>) c' (0 + 1) True)))) (Unlock decoder_mutex)
      = 1 + count_list (snd (snd (snd (drain_loop rest ?pts
              (decoder\<lparr>sws_ctx := True\<rparr>\<lparr>sws_ctx := True\<rparr>) c'' (0 + 1 + 1) True)))) (Unlock decoder_mutex)"
    using drain_emit_unlocks [OF assms(12) sws] by blast
  have unlocks: "2 \<le> count_list ?evs (Unlock decoder_mutex)"
    unfolding first second by simp
  have locks: "count_list ?evs (Lock decoder_mutex) = 0"
    using drain_loop_no_gate_lock [of "Receive r1 f1 # Receive r2 f2 # rest" ?pts decoder ?c1 0 False]
    by (cases ?drain) simp
  have trace: "snd (on_video_frame env (Some ctx) frame_id) =
      [Lock decoder_mutex, Send_packet converted ?pts] @ ?evs @ [Bfree converted_data] @
      (if \<not> fst (snd (snd ?drain)) then [Unlock decoder_mutex] else []) @ [Frame_close frame_id]"
    using assms(1-9)
    by (simp add: on_video_frame_def nvdec_decoder_decode_def decode_frame_def Let_def case_prod_beta
             del: drain_loop.simps)
  show ?thesis
    unfolding trace using unlocks locks by simp
qed

theorem two_frames_unlock_twice_witness:
  "snd (on_video_frame
          (callback_env [0, 0, 0, 1, 0x68]
             [Receive 0 (decoded_frame 1000000), Receive 0 (decoded_frame 1040000), Receive (- 11) (decoded_frame 0)])
          (Some streaming_context) 9)
     = [Lock decoder_mutex, Send_packet [0, 0, 0, 1, 0x68] 1000000,
        Lock frame_mutex, Unlock frame_mutex, Unlock decoder_mutex,
        Output_video 640 480 1000000000, Bfree (rgba_data 1),
        Lock frame_mutex, Unlock frame_mutex, Unlock decoder_mutex,
        Output_video 640 480 1040000000, Bfree (rgba_data 2),
        Bfree converted_data, Frame_close 9]
   \<and> count_list (snd (on_video_frame
          (callback_env [0, 0, 0, 1, 0x68]
             [Receive 0 (decoded_frame 1000000), Receive 0 (decoded_frame 1040000), Receive (- 11) (decoded_frame 0)])
          (Some streaming_context) 9)) (Lock decoder_mutex) = 1
   \<and> 2 \<le> count_list (snd (on_video_frame
          (callback_env [0, 0, 0, 1, 0x68]
             [Receive 0 (decoded_frame 1000000), Receive 0 (decoded_frame 1040000), Receive (- 11) (decoded_frame 0)])
          (Some streaming_context) 9)) (Unlock decoder_mutex)"
proof -
  let ?env = "callback_env [0, 0, 0, 1, 0x68]
             [Receive 0 (decoded_frame 1000000), Receive 0 (decoded_frame 1040000), Receive (- 11) (decoded_frame 0)]"
  have conv: "convert_mp4_nal_units_to_annex_b (\<lambda>n. True) [0, 0, 0, 1, 0x68] = Inr [0, 0, 0, 1, 0x68]"
    by (simp add: convert_mp4_nal_units_to_annex_b_def convert_loop.simps read_be32_def start_code_def Let_def)
  have counts: "count_list (snd (on_video_frame ?env (Some streaming_context) 9)) (Lock decoder_mutex) = 1
     \<and> 2 \<le> count_list (snd (on_video_frame ?env (Some streaming_context) 9)) (Unlock decoder_mutex)"
    by (rule two_frames_unlock_twice [where converted = "[0, 0, 0, 1, 0x68]"
          and decoder = "\<lparr>codec_ctx = Some \<lparr>codec_id = AV_CODEC_ID_H264, extradata = None\<rparr>, sws_ctx = False\<rparr>"
          and ?r1.0 = 0 and ?f1.0 = "decoded_frame 1000000" and ?r2.0 = 0 and ?f2.0 = "decoded_frame 1040000"
          and rest = "[Receive (- 11) (decoded_frame 0)]"])
       (simp_all add: callback_env_def decoding_env_def streaming_context_def decoded_frame_def
          reaches_output_def conv)
  have trace: "snd (on_video_frame ?env (Some streaming_context) 9)
     = [Lock decoder_mutex, Send_packet [0, 0, 0, 1, 0x68] 1000000,
        Lock frame_mutex, Unlock frame_mutex, Unlock decoder_mutex,
        Output_video 640 480 1000000000, Bfree (rgba_data 1),
        Lock frame_mutex, Unlock frame_mutex, Unlock decoder_mutex,
        Output_video 640 480 1040000000, Bfree (rgba_data 2),
        Bfree converted_data, Frame_close 9]"
    by (simp add: on_video_frame_def nvdec_decoder_decode_def decode_frame_def callback_env_def
          decoding_env_def streaming_context_def decoded_frame_def conv output_decoded_frame_def
          AV_NOPTS_VALUE_def AVERROR_EAGAIN_def Let_def)
  show ?thesis using counts trace by simp
qed

end
